theory Spec2Isabelle
  imports Main
begin

section \<open>Strings\<close>

text \<open>
  Python's \<^verbatim>\<open>str\<close> is modelled as \<^typ>\<open>string\<close>: a list of characters with code points
  below 256. The operations of \<^verbatim>\<open>ircbot.py\<close> on strings are the following ones.
\<close>

text \<open>\<^verbatim>\<open>s.startswith(p)\<close>\<close>

definition startswith :: "string \<Rightarrow> string \<Rightarrow> bool" where
  "startswith s p = (take (length p) s = p)"

text \<open>\<^verbatim>\<open>s.split(d)\<close> with a separator of one character: every occurrence of the separator
  cuts, so the result has one more element than \<^verbatim>\<open>s.count(d)\<close>, and is never empty.\<close>

fun split_chr :: "char \<Rightarrow> string \<Rightarrow> string list" where
  "split_chr d [] = [[]]"
| "split_chr d (c # cs) =
     (if c = d then [] # split_chr d cs
      else (case split_chr d cs of
              [] \<Rightarrow> [[c]]
            | w # ws \<Rightarrow> (c # w) # ws))"

text \<open>\<^verbatim>\<open>sep.join(xs)\<close>\<close>

fun join :: "string \<Rightarrow> string list \<Rightarrow> string" where
  "join sep [] = []"
| "join sep [x] = x"
| "join sep (x # y # ys) = x @ sep @ join sep (y # ys)"

text \<open>\<^verbatim>\<open>c.isspace()\<close> on the code points below 256, and \<^verbatim>\<open>s.strip()\<close>.\<close>

definition isspace :: "char \<Rightarrow> bool" where
  "isspace c = (c \<in> set [CHR 0x09, CHR 0x0A, CHR 0x0B, CHR 0x0C, CHR 0x0D,
                         CHR 0x1C, CHR 0x1D, CHR 0x1E, CHR 0x1F, CHR 0x20,
                         CHR 0x85, CHR 0xA0])"

definition strip :: "string \<Rightarrow> string" where
  "strip s = rev (dropWhile isspace (rev (dropWhile isspace s)))"

text \<open>The character class \<^verbatim>\<open>[0-9]\<close> and \<^verbatim>\<open>int(s)\<close> on a string of such digits.\<close>

definition isdigit :: "char \<Rightarrow> bool" where
  "isdigit c = (c \<in> set ''0123456789'')"

definition int_of_digits :: "string \<Rightarrow> nat" where
  "int_of_digits s = foldl (\<lambda>n c. 10 * n + (of_char c - 48)) 0 s"

text \<open>
  \<^verbatim>\<open>re.findall(r'rt#([0-9]+)', msg)\<close>: the text is scanned from the left; where
  \<^verbatim>\<open>rt#\<close> and at least one digit stand, the longest run of digits is one result and the
  scan goes on behind it; elsewhere the scan moves one character on.
\<close>

function findall_rt :: "string \<Rightarrow> string list" where
  "findall_rt [] = []"
| "findall_rt (c # cs) =
     (if c = CHR ''r'' \<and> take 2 cs = ''t#'' \<and> takeWhile isdigit (drop 2 cs) \<noteq> []
      then takeWhile isdigit (drop 2 cs) # findall_rt (dropWhile isdigit (drop 2 cs))
      else findall_rt cs)"
  by pat_completeness auto
termination
proof (relation "measure length")
  fix c :: char and cs :: string
  have "length (dropWhile isdigit (drop 2 cs)) \<le> length cs"
    using length_dropWhile_le [of isdigit "drop 2 cs"] by simp
  then show "(dropWhile isdigit (drop 2 cs), c # cs) \<in> measure length"
    by simp
qed simp_all

section \<open>Configuration\<close>

text \<open>
  The module reads the login name once (\<^verbatim>\<open>getpass.getuser()\<close>) and derives the nickname
  and the channels from it. The login name is a parameter of the model.
\<close>

definition IRC_NICKNAME :: "string \<Rightarrow> string" where
  "IRC_NICKNAME login = (if login = ''nobody'' then ''create'' else ''create-'' @ login)"

definition IRC_CHANNELS :: "string \<Rightarrow> string list" where
  "IRC_CHANNELS login = (if login = ''nobody'' then [''#rebuild'', ''#atool''] else [''#'' @ login])"

definition IRC_CHANNELS_ANNOUNCE :: "string list" where
  "IRC_CHANNELS_ANNOUNCE = [''#atool'']"

section \<open>Effects and errors\<close>

text \<open>
  What the bot does to the outside is recorded in order: a channel joined
  (\<^verbatim>\<open>conn.join(channel)\<close>), a line sent to a chat target
  (\<^verbatim>\<open>conn.privmsg(target, text)\<close>), a task handed to the queue
  (\<^verbatim>\<open>self.tasks.<name>.delay(*args)\<close>), and a wait for a task's result
  (\<^verbatim>\<open>task.wait(timeout=n)\<close>).
\<close>

datatype effect =
    Join string
  | Privmsg string string
  | Delay string "string list"
  | Wait nat

datatype error = AssertionError | IndexError | ValueError | OtherError

text \<open>
  The exceptions: the three that the code of the bot raises itself, and \<open>OtherError\<close> for
  any other exception that is raised while the ticket references of a message are
  handled. Elsewhere a line handed to \<^verbatim>\<open>conn.privmsg\<close> is recorded as sent.

  A run gives the effects it made, and the exception that ended it, if one did.
  Sequencing keeps the effects made before an exception and skips the rest.
\<close>

type_synonym outcome = "effect list \<times> error option"

fun and_then :: "outcome \<Rightarrow> outcome \<Rightarrow> outcome" where
  "and_then (es, Some e) _ = (es, Some e)"
| "and_then (es, None) (fs, r) = (es @ fs, r)"

text \<open>What \<^verbatim>\<open>task.wait(timeout=5)\<close> does in \<^verbatim>\<open>handle_command\<close>: it returns with
  \<^verbatim>\<open>task.result\<close> set, or raises \<^verbatim>\<open>exceptions.TimeoutError\<close>.\<close>

datatype wait_outcome = Ready "string list" | TimeoutError

text \<open>\<^verbatim>\<open>CreateBot.on_welcome(conn, _)\<close>\<close>

definition on_welcome :: "string \<Rightarrow> effect list" where
  "on_welcome lg = map Join (IRC_CHANNELS lg)"

section \<open>The command handler\<close>

text \<open>The closure \<^verbatim>\<open>respond(msg, ping=True)\<close> of \<^verbatim>\<open>on_pubmsg\<close>, over the event's target and
  the sender's nick.\<close>

definition on_pubmsg_respond :: "string \<Rightarrow> string \<Rightarrow> string \<Rightarrow> bool \<Rightarrow> effect" where
  "on_pubmsg_respond target user msg ping = Privmsg target (if ping then user @ '': '' @ msg else msg)"

text \<open>\<^verbatim>\<open>CreateBot.handle_command(is_oper, command, args, respond)\<close>; \<open>pending\<close> is what the
  wait for \<^verbatim>\<open>get_pending_requests\<close> gives.\<close>

definition handle_command ::
  "wait_outcome \<Rightarrow> bool \<Rightarrow> string \<Rightarrow> string list \<Rightarrow> (string \<Rightarrow> bool \<Rightarrow> effect) \<Rightarrow> outcome" where
  "handle_command pending is_oper command args respond =
     and_then
       (if is_oper then
          (if command = ''list'' then
             (case pending of
                Ready result \<Rightarrow>
                  (if result \<noteq> []
                   then ([Delay ''get_pending_requests'' [], Wait 5]
                           @ map (\<lambda>request. respond request True) result, None)
                   else ([Delay ''get_pending_requests'' [], Wait 5,
                          respond ''no pending requests'' True], None))
              | TimeoutError \<Rightarrow>
                  ([Delay ''get_pending_requests'' [], Wait 5,
                    respond ''timed out loading list of requests, sorry!'' True], None))
           else if command = ''approve'' then
             (case args of
                [] \<Rightarrow> ([], Some IndexError)
              | user_name # _ \<Rightarrow>
                  ([Delay ''approve_request'' [user_name],
                    respond (''approved '' @ user_name @ '', the account is being created'') True],
                   None))
           else if command = ''reject'' then
             (case args of
                [] \<Rightarrow> ([], Some IndexError)
              | user_name # _ \<Rightarrow>
                  ([Delay ''reject_request'' [user_name],
                    respond (''rejected '' @ user_name @ '', better luck next time'') True],
                   None))
           else ([], None))
        else ([], None))
       (if command = ''thanks'' then ([respond ''you're welcome'' True], None)
        else if command = ''thank'' then
          (let thing = join '' '' args in
           if thing = ''you'' then ([respond ''you're most welcome'' True], None)
           else ([respond (''thanks, '' @ thing @ ''!'') False], None))
        else ([], None))"

section \<open>Dispatch of a public message\<close>

text \<open>
  The event of \<^verbatim>\<open>on_pubmsg\<close>, and the bot with what it reads from outside while it
  handles one:
  \<^item> \<^verbatim>\<open>self.channels\<close>, a dictionary from a joined channel to its channel object, of
    which \<^verbatim>\<open>on_pubmsg\<close> uses one thing: the answer of the test
    \<^verbatim>\<open>user in self.channels[c].opers()\<close>, for each nick, as the irc library gives it;
  \<^item> what \<^verbatim>\<open>rt_connection(user='create', password=...)\<close> does: it returns the connection
    (\<open>None\<close>) or raises an exception;
  \<^item> what the body of the \<^verbatim>\<open>try\<close> does for the ticket of a number,
    \<^verbatim>\<open>t = RtTicket.from_number(rt, n)\<close> and \<^verbatim>\<open>respond(str(t))\<close>: the ticket is found, and
    rendered by \<^verbatim>\<open>str\<close> it is the summary sent, or an exception is raised;
  \<^item> the outcome of the wait for the pending requests.
\<close>

record pubmsg_event =
  source :: string
  target :: string
  arguments :: "string list"

record bot =
  login :: string
  channels :: "string \<rightharpoonup> (string \<Rightarrow> bool)"
  rt_connection :: "error option"
  rt_ticket :: "nat \<Rightarrow> error + string"
  pending :: wait_outcome

text \<open>
  The loop \<^verbatim>\<open>for ticket in tickets\<close> with its \<^verbatim>\<open>try\<close>/\<^verbatim>\<open>except AssertionError: pass\<close>: an
  \<^verbatim>\<open>AssertionError\<close> is caught and the loop goes on with the next ticket; any other
  exception leaves the loop, after the summaries sent so far.
\<close>

fun respond_tickets ::
  "(nat \<Rightarrow> error + string) \<Rightarrow> (string \<Rightarrow> bool \<Rightarrow> effect) \<Rightarrow> string list \<Rightarrow> outcome" where
  "respond_tickets rt respond [] = ([], None)"
| "respond_tickets rt respond (ticket # tickets) =
     (case rt (int_of_digits ticket) of
        Inr t \<Rightarrow> and_then ([respond t True], None) (respond_tickets rt respond tickets)
      | Inl e \<Rightarrow>
          (if e = AssertionError then respond_tickets rt respond tickets
           else ([], Some e)))"

text \<open>\<^verbatim>\<open>CreateBot.on_pubmsg(conn, event)\<close>. The two \<^verbatim>\<open>assert\<close> statements raise
  \<^verbatim>\<open>AssertionError\<close>; the unpacking \<^verbatim>\<open>user, _ = ...\<close> raises \<^verbatim>\<open>ValueError\<close> on a list
  that has not two elements; \<^verbatim>\<open>command, *args = ...\<close> raises it on an empty list. The call
  of \<^verbatim>\<open>rt_connection\<close> stands in front of the loop, outside its \<^verbatim>\<open>try\<close>: what it raises
  leaves \<^verbatim>\<open>on_pubmsg\<close>.\<close>

definition on_pubmsg :: "bot \<Rightarrow> pubmsg_event \<Rightarrow> outcome" where
  "on_pubmsg self event =
     (case channels self (target event) of
        None \<Rightarrow> ([], None)
      | Some opers \<Rightarrow>
          (if count_list (source event) (CHR ''!'') \<noteq> 1 then ([], Some AssertionError)
           else
             (case split_chr (CHR ''!'') (source event) of
                [user, _] \<Rightarrow>
                  (if startswith user ''create'' then ([], None)
                   else
                     (let is_oper = opers user in
                      if length (arguments event) \<noteq> 1 then ([], Some AssertionError)
                      else
                        (let msg = arguments event ! 0;
                             respond = on_pubmsg_respond (target event) user;
                             tickets = findall_rt msg
                         in if tickets \<noteq> [] then
                              (case rt_connection self of
                                 Some e \<Rightarrow> ([], Some e)
                               | None \<Rightarrow> respond_tickets (rt_ticket self) respond tickets)
                            else if startswith msg (IRC_NICKNAME (login self) @ '' '')
                                    \<or> startswith msg (IRC_NICKNAME (login self) @ '': '') then
                              (case split_chr (CHR '' '')
                                      (strip (drop (length (IRC_NICKNAME (login self)) + 1) msg)) of
                                 command # args \<Rightarrow>
                                   handle_command (pending self) is_oper command args respond
                               | [] \<Rightarrow> ([], Some ValueError))
                            else ([], None))))
              | _ \<Rightarrow> ([], Some ValueError))))"

section \<open>The event relay\<close>

text \<open>
  A celery event as the handlers read it: its type, under which the receiver looks the
  handler up, and \<^verbatim>\<open>event['request']\<close> with the three fields the handlers use.
\<close>

record account_request =
  user_name :: string
  real_name :: string
  reasons :: "string list"

record celery_event =
  event_type :: string
  request :: account_request

text \<open>\<^verbatim>\<open>bot_announce(bot, targets, message)\<close>\<close>

definition bot_announce :: "string list \<Rightarrow> string \<Rightarrow> effect list" where
  "bot_announce targets message = map (\<lambda>target. Privmsg target message) targets"

text \<open>The four handlers of \<^verbatim>\<open>celery_listener\<close>.\<close>

definition on_account_created :: "string \<Rightarrow> celery_event \<Rightarrow> effect list" where
  "on_account_created lg event =
     bot_announce IRC_CHANNELS_ANNOUNCE
       (user_name (request event) @ '' created ('' @ real_name (request event) @ '')'')"

definition on_account_submitted :: "string \<Rightarrow> celery_event \<Rightarrow> effect list" where
  "on_account_submitted lg event =
     bot_announce (IRC_CHANNELS lg)
       (user_name (request event) @ '' ('' @ real_name (request event)
          @ '') needs approval: '' @ join '', '' (reasons (request event)))"

definition on_account_approved :: "string \<Rightarrow> celery_event \<Rightarrow> effect list" where
  "on_account_approved lg event =
     bot_announce IRC_CHANNELS_ANNOUNCE
       (user_name (request event) @ '' was approved, now pending creation.'')"

definition on_account_rejected :: "string \<Rightarrow> celery_event \<Rightarrow> effect list" where
  "on_account_rejected lg event =
     bot_announce IRC_CHANNELS_ANNOUNCE (user_name (request event) @ '' was rejected.'')"

text \<open>The dictionary \<^verbatim>\<open>handlers\<close> given to the \<^verbatim>\<open>EventReceiver\<close>, and what the receiver
  does with one event: it calls the handler stored under the event's type, if there is
  one.\<close>

definition handlers :: "string \<Rightarrow> (string \<rightharpoonup> (celery_event \<Rightarrow> effect list))" where
  "handlers lg =
     [''ocflib.account_created'' \<mapsto> on_account_created lg,
      ''ocflib.account_submitted'' \<mapsto> on_account_submitted lg,
      ''ocflib.account_approved'' \<mapsto> on_account_approved lg,
      ''ocflib.account_rejected'' \<mapsto> on_account_rejected lg]"

definition process :: "string \<Rightarrow> celery_event \<Rightarrow> effect list" where
  "process lg event =
     (case handlers lg (event_type event) of
        None \<Rightarrow> []
      | Some handler \<Rightarrow> handler event)"

text \<open>
  One subscription, \<^verbatim>\<open>recv.capture(limit=None, timeout=None)\<close>: the events it delivers, and
  how it ends. The call returns, or it raises an exception; \<^verbatim>\<open>celery_listener\<close> has no
  \<^verbatim>\<open>try\<close> around it.
\<close>

datatype capture_end = Returned | Raised

type_synonym subscription = "celery_event list \<times> capture_end"

definition capture :: "string \<Rightarrow> celery_event list \<Rightarrow> effect list" where
  "capture lg events = concat (map (process lg) events)"

text \<open>
  \<^verbatim>\<open>celery_listener(bot, uri)\<close>, run against the subscriptions the broker grants, in order.
  The loop \<^verbatim>\<open>while True\<close> has no \<^verbatim>\<open>break\<close> and no \<^verbatim>\<open>return\<close>: after the last subscription
  of the list it is \<open>Looping\<close> still (blocked in the next one), and it is \<open>Exited\<close> when
  an exception has left it.
\<close>

datatype relay_status = Looping | Exited

fun celery_listener :: "string \<Rightarrow> subscription list \<Rightarrow> effect list \<times> relay_status" where
  "celery_listener lg [] = ([], Looping)"
| "celery_listener lg ((events, Returned) # rest) =
     (case celery_listener lg rest of (es, st) \<Rightarrow> (capture lg events @ es, st))"
| "celery_listener lg ((events, Raised) # rest) = (capture lg events, Exited)"

section \<open>The listener registry\<close>

text \<open>
  \<^verbatim>\<open>plugin/lab.py\<close> registers its two handlers with \<^verbatim>\<open>bot.listen(pattern, fn,
  require_mention=True)\<close>. The two patterns are those of \<^verbatim>\<open>register\<close>, each as the
  function that matches it at the start of a text and gives its groups:
  \<^verbatim>\<open>is ([a-z]+) in the lab\<close> (the group cannot be shorter than the whole run of letters,
  since a blank has to follow it) and \<^verbatim>\<open>(who is|who's) in the lab\<close>.
\<close>

definition islower_az :: "char \<Rightarrow> bool" where
  "islower_az c = (c \<in> set ''abcdefghijklmnopqrstuvwxyz'')"

definition match_in_lab :: "string \<Rightarrow> string list option" where
  "match_in_lab s =
     (if startswith s ''is '' \<and> takeWhile islower_az (drop 3 s) \<noteq> []
         \<and> startswith (dropWhile islower_az (drop 3 s)) '' in the lab''
      then Some [takeWhile islower_az (drop 3 s)]
      else None)"

definition match_who_is_in_lab :: "string \<Rightarrow> string list option" where
  "match_who_is_in_lab s =
     (if startswith s ''who is in the lab'' then Some [''who is'']
      else if startswith s ''who's in the lab'' then Some [''who's'']
      else None)"

text \<open>The two handlers of \<^verbatim>\<open>lab.py\<close>, by name.\<close>

datatype lab_handler = in_lab | who_is_in_lab

text \<open>
  Modelled from the spec: the method \<^verbatim>\<open>listen\<close> of the bot, the list of listeners it
  fills and the dispatch of a message over that list are not in the source at hand
  (\<^verbatim>\<open>CreateBot\<close> has no \<^verbatim>\<open>listen\<close>; only the caller \<^verbatim>\<open>register\<close> of \<^verbatim>\<open>lab.py\<close> is there).
  The spec has a registry that stores (pattern, handler, mentionRequired) entries, is
  append-only and never reordered, and matches a message once per registered entry; a
  mention-prefixed text begins with the bot's nickname followed by a space or by a colon
  and a space. An entry that requires a mention is passed over on a text that is not
  mention-prefixed. The spec does not say where in the text a pattern has to match: a
  pattern is searched for here, from the left, and the result below holds for any
  pattern function.
\<close>

record 'h listener_entry =
  pattern :: "string \<Rightarrow> string list option"
  handler :: 'h
  require_mention :: bool

text \<open>Modelled from the spec: \<^verbatim>\<open>bot.listen(pattern, fn, require_mention)\<close>, which is not
  in the source at hand; it appends the entry to the registry.\<close>

definition listen ::
  "'h listener_entry list \<Rightarrow> (string \<Rightarrow> string list option) \<Rightarrow> 'h \<Rightarrow> bool
     \<Rightarrow> 'h listener_entry list" where
  "listen listeners p fn m = listeners @ [\<lparr>pattern = p, handler = fn, require_mention = m\<rparr>]"

text \<open>Modelled from the spec: the search for a pattern in a text, part of the dispatch
  that is not in the source at hand; the leftmost position where the pattern matches
  gives the groups.\<close>

fun re_search :: "(string \<Rightarrow> string list option) \<Rightarrow> string \<Rightarrow> string list option" where
  "re_search p [] = p []"
| "re_search p (c # cs) =
     (case p (c # cs) of
        Some groups \<Rightarrow> Some groups
      | None \<Rightarrow> re_search p cs)"

text \<open>Modelled from the spec: a mention-prefixed text, as the glossary has it; the test is
  part of the dispatch that is not in the source at hand.\<close>

definition mention_prefixed :: "string \<Rightarrow> string \<Rightarrow> bool" where
  "mention_prefixed nick text = (startswith text (nick @ '' '') \<or> startswith text (nick @ '': ''))"

text \<open>Modelled from the spec: the match of one entry against a message, part of the
  dispatch that is not in the source at hand.\<close>

definition entry_match :: "string \<Rightarrow> 'h listener_entry \<Rightarrow> string \<Rightarrow> string list option" where
  "entry_match nick e text =
     (if require_mention e \<and> \<not> mention_prefixed nick text then None
      else re_search (pattern e) text)"

text \<open>Modelled from the spec: the dispatch of a message over the registry, which is not in
  the source at hand; every entry is tried once, in the order of registration, and each
  match calls the entry's handler with the groups of the match.\<close>

fun dispatch_listeners ::
  "string \<Rightarrow> 'h listener_entry list \<Rightarrow> string \<Rightarrow> ('h \<times> string list) list" where
  "dispatch_listeners nick [] text = []"
| "dispatch_listeners nick (e # es) text =
     (case entry_match nick e text of
        None \<Rightarrow> dispatch_listeners nick es text
      | Some groups \<Rightarrow> (handler e, groups) # dispatch_listeners nick es text)"

text \<open>\<^verbatim>\<open>register(bot)\<close> of \<^verbatim>\<open>plugin/lab.py\<close>, on the bot's list of listeners.\<close>

definition register :: "lab_handler listener_entry list \<Rightarrow> lab_handler listener_entry list" where
  "register listeners =
     listen (listen listeners match_in_lab in_lab True) match_who_is_in_lab who_is_in_lab True"

section \<open>Facts about the string operations\<close>

lemma split_chr_not_Nil: "split_chr d s \<noteq> []"
  by (induction s) (auto split: list.splits)

lemma length_split_chr: "length (split_chr d s) = count_list s d + 1"
proof (induction s)
  case Nil
  show ?case by simp
next
  case (Cons c cs)
  then show ?case
    by (cases "split_chr d cs") (auto simp: split_chr_not_Nil)
qed

lemma count_of_split2:
  assumes "split_chr d s = [u, h]"
  shows "count_list s d = 1"
  using length_split_chr [of d s] assms by simp

text \<open>
  \<^verbatim>\<open>sep.join(xs)\<close> in terms of the list functions of the library: the empty string for
  no element; otherwise every element but the last with the separator behind it, and the
  last element.
\<close>

lemma join_concat:
  "join sep xs = (if xs = [] then [] else concat (map (\<lambda>x. x @ sep) (butlast xs)) @ last xs)"
  by (induction sep xs rule: join.induct) simp_all

text \<open>
  What \<^verbatim>\<open>findall\<close> finds: every result is a non-empty run of digits, and a reference
  \<open>rt#<digits>\<close> that no digit follows gives its digits as one result, after which the
  scan goes on with the rest of the text. (A text without the letter \<open>r\<close> has no
  reference.)
\<close>

lemma findall_rt_digits: "t \<in> set (findall_rt s) \<Longrightarrow> t \<noteq> [] \<and> (\<forall>c \<in> set t. isdigit c)"
proof (induction s rule: findall_rt.induct)
  case 1
  then show ?case by simp
next
  case (2 c cs)
  then show ?case
    by (auto split: if_splits dest: set_takeWhileD)
qed

lemma findall_rt_skip: "CHR ''r'' \<notin> set pre \<Longrightarrow> findall_rt (pre @ s) = findall_rt s"
  by (induction pre) auto

lemma findall_rt_reference:
  assumes pre: "CHR ''r'' \<notin> set pre"
    and ds: "ds \<noteq> []" "\<forall>c \<in> set ds. isdigit c"
    and rest: "rest = [] \<or> \<not> isdigit (hd rest)"
  shows "findall_rt (pre @ ''rt#'' @ ds @ rest) = ds # findall_rt rest"
proof -
  have tw: "takeWhile isdigit (ds @ rest) = ds"
    using ds(2) rest by (cases rest) simp_all
  have dw: "dropWhile isdigit (ds @ rest) = rest"
    using ds(2) rest by (cases rest) simp_all
  have "findall_rt (''rt#'' @ ds @ rest) = ds # findall_rt rest"
    using ds(1) by (simp add: tw dw)
  then show ?thesis
    using findall_rt_skip [OF pre] by simp
qed

section \<open>Facts about the dispatch\<close>

text \<open>
  A message in a joined channel, from a sender whose source splits at its one \<open>!\<close> and
  whose nick does not start with \<open>create\<close>, with one argument: what \<^verbatim>\<open>on_pubmsg\<close> does
  with the text.
\<close>

lemma on_pubmsg_sender:
  assumes ch: "channels self (target event) = Some opers"
    and src: "split_chr (CHR ''!'') (source event) = [user, host]"
    and nb: "\<not> startswith user ''create''"
    and arg: "arguments event = [msg]"
  shows "on_pubmsg self event =
     (if findall_rt msg \<noteq> [] then
        (case rt_connection self of
           Some e \<Rightarrow> ([], Some e)
         | None \<Rightarrow>
             respond_tickets (rt_ticket self) (on_pubmsg_respond (target event) user)
               (findall_rt msg))
      else if startswith msg (IRC_NICKNAME (login self) @ '' '')
              \<or> startswith msg (IRC_NICKNAME (login self) @ '': '') then
        (case split_chr (CHR '' '') (strip (drop (length (IRC_NICKNAME (login self)) + 1) msg)) of
           command # args \<Rightarrow>
             handle_command (pending self) (opers user) command args
               (on_pubmsg_respond (target event) user)
         | [] \<Rightarrow> ([], Some ValueError))
      else ([], None))"
proof -
  have cnt: "count_list (source event) (CHR ''!'') = 1"
    using src by (rule count_of_split2)
  show ?thesis
    unfolding on_pubmsg_def by (simp add: ch cnt src nb arg Let_def)
qed

text \<open>
  A mention-prefixed text without a ticket reference reaches the command handler with the
  words of the text behind the nickname, with \<^verbatim>\<open>is_oper\<close> set where the test
  \<^verbatim>\<open>user in self.channels[event.target].opers()\<close> answers yes and nowhere else, and with
  the \<^verbatim>\<open>respond\<close> that writes to the channel of the message and addresses its sender.
\<close>

lemma on_pubmsg_command:
  assumes ch: "channels self (target event) = Some opers"
    and src: "split_chr (CHR ''!'') (source event) = [user, host]"
    and nb: "\<not> startswith user ''create''"
    and arg: "arguments event = [msg]"
    and nt: "findall_rt msg = []"
    and mention: "startswith msg (IRC_NICKNAME (login self) @ '' '')
                  \<or> startswith msg (IRC_NICKNAME (login self) @ '': '')"
    and cmd: "split_chr (CHR '' '') (strip (drop (length (IRC_NICKNAME (login self)) + 1) msg))
                = command # args"
  shows "on_pubmsg self event
           = handle_command (pending self) (opers user) command args
               (on_pubmsg_respond (target event) user)"
  using mention cmd by (simp add: on_pubmsg_sender [OF ch src nb arg] nt)

lemma on_pubmsg_not_joined:
  "channels self (target event) = None \<Longrightarrow> on_pubmsg self event = ([], None)"
  by (simp add: on_pubmsg_def)

text \<open>
  The ticket loop. As long as every lookup finds its ticket or raises the
  \<^verbatim>\<open>AssertionError\<close> that is caught, the loop runs to its end and has sent the summaries
  of the tickets found, in the order of the references. The first lookup that raises
  another exception ends the loop with that exception, after the summaries sent so far.
\<close>

lemma respond_tickets_caught:
  assumes "\<forall>t \<in> set tickets. rt (int_of_digits t) = Inl AssertionError
                                \<or> (\<exists>s. rt (int_of_digits t) = Inr s)"
  shows "respond_tickets rt respond tickets
           = (List.map_filter
                (\<lambda>t. case rt (int_of_digits t) of
                        Inr s \<Rightarrow> Some (respond s True)
                      | Inl e \<Rightarrow> None)
                tickets, None)"
  using assms by (induction tickets) (auto simp: List.map_filter_simps)

lemma respond_tickets_abort:
  assumes "\<forall>t \<in> set pre. rt (int_of_digits t) = Inl AssertionError
                            \<or> (\<exists>s. rt (int_of_digits t) = Inr s)"
    and "rt (int_of_digits t) = Inl e" and "e \<noteq> AssertionError"
  shows "respond_tickets rt respond (pre @ t # post)
           = (List.map_filter
                (\<lambda>t. case rt (int_of_digits t) of
                        Inr s \<Rightarrow> Some (respond s True)
                      | Inl e \<Rightarrow> None)
                pre, Some e)"
  using assms by (induction pre) (auto simp: List.map_filter_simps)

lemma length_map_filter_found:
  assumes "\<forall>t \<in> set tickets. \<exists>s. rt (int_of_digits t) = Inr s"
  shows "length (List.map_filter
                   (\<lambda>t. case rt (int_of_digits t) of
                           Inr s \<Rightarrow> Some (respond s True)
                         | Inl e \<Rightarrow> None)
                   tickets) = length tickets"
  using assms by (induction tickets) (auto simp: List.map_filter_simps)

section \<open>Facts about the registry\<close>

lemma dispatch_listeners_append:
  "dispatch_listeners nick (xs @ ys) text
     = dispatch_listeners nick xs text @ dispatch_listeners nick ys text"
  by (induction xs) (auto split: option.splits)

lemma dispatch_listeners_none:
  "\<forall>e \<in> set es. entry_match nick e text = None \<Longrightarrow> dispatch_listeners nick es text = []"
  by (induction es) auto

section \<open>Ticket references and commands in one message\<close>

text \<open>
  Claim C1, as the spec has it: a message that holds a ticket reference and is
  mention-prefixed gets both, the ticket summaries and the command. The code does not do
  that: \<^verbatim>\<open>on_pubmsg\<close> tests the mention prefix in the \<^verbatim>\<open>elif\<close> of \<^verbatim>\<open>if tickets:\<close>.
  The text \<open>create: thanks rt#1\<close> holds the reference \<open>1\<close>, starts with the nickname
  and a colon, and parses to the command \<open>thanks\<close>, which the command handler would
  answer; the dispatch sends the ticket's summary and nothing else.
\<close>

theorem tickets_exclude_command_counterexample:
  "findall_rt ''create: thanks rt#1'' = [''1'']
   \<and> startswith ''create: thanks rt#1'' (IRC_NICKNAME ''nobody'' @ '': '')
   \<and> split_chr (CHR '' '')
        (strip (drop (length (IRC_NICKNAME ''nobody'') + 1) ''create: thanks rt#1''))
       = [''thanks'', ''rt#1'']
   \<and> handle_command (Ready []) False ''thanks'' [''rt#1''] (on_pubmsg_respond ''#atool'' ''alice'')
       = ([Privmsg ''#atool'' ''alice: you're welcome''], None)
   \<and> on_pubmsg
         \<lparr>login = ''nobody'', channels = map_of [(''#atool'', (=) ''root'')],
          rt_connection = None,
          rt_ticket = case_option (Inl AssertionError) id \<circ> map_of [(1, Inr ''ticket one'')],
          pending = Ready []\<rparr>
         \<lparr>source = ''alice!~alice@host'', target = ''#atool'',
          arguments = [''create: thanks rt#1'']\<rparr>
       = ([Privmsg ''#atool'' ''alice: ticket one''], None)"
  by (simp add: on_pubmsg_def startswith_def IRC_NICKNAME_def strip_def isspace_def isdigit_def
      int_of_digits_def handle_command_def on_pubmsg_respond_def)

text \<open>
  Claim C1, amended. For a message in a joined channel from another sender: when the
  text holds at least one ticket reference, the dispatch does the ticket step only,
  mention-prefixed or not: it connects to the ticket system and runs the ticket loop (or
  ends in the exception that the connecting raises), and nothing of the command handler
  is done; when the text holds no ticket reference and is mention-prefixed, the dispatch
  parses the command and does what the command handler does with it.
\<close>

theorem tickets_or_command:
  assumes ch: "channels self (target event) = Some opers"
    and src: "split_chr (CHR ''!'') (source event) = [user, host]"
    and nb: "\<not> startswith user ''create''"
    and arg: "arguments event = [msg]"
  shows "(findall_rt msg \<noteq> [] \<longrightarrow>
            on_pubmsg self event
              = (case rt_connection self of
                   Some e \<Rightarrow> ([], Some e)
                 | None \<Rightarrow>
                     respond_tickets (rt_ticket self) (on_pubmsg_respond (target event) user)
                       (findall_rt msg)))
         \<and> (findall_rt msg = []
              \<and> (startswith msg (IRC_NICKNAME (login self) @ '' '')
                   \<or> startswith msg (IRC_NICKNAME (login self) @ '': ''))
              \<and> split_chr (CHR '' '')
                    (strip (drop (length (IRC_NICKNAME (login self)) + 1) msg)) = command # args
            \<longrightarrow> on_pubmsg self event
                  = handle_command (pending self) (opers user) command args
                      (on_pubmsg_respond (target event) user))"
  by (auto simp: on_pubmsg_sender [OF ch src nb arg])

theorem tickets_or_command_witness:
  "on_pubmsg
     \<lparr>login = ''nobody'', channels = map_of [(''#atool'', (=) ''root'')],
      rt_connection = None,
      rt_ticket = case_option (Inl AssertionError) id \<circ> map_of [(1, Inr ''ticket one'')],
      pending = Ready []\<rparr>
     \<lparr>source = ''alice!~alice@host'', target = ''#atool'',
      arguments = [''create: thanks rt#1'']\<rparr>
     = ([Privmsg ''#atool'' ''alice: ticket one''], None)
   \<and> on_pubmsg
     \<lparr>login = ''nobody'', channels = map_of [(''#atool'', (=) ''root'')],
      rt_connection = Some OtherError,
      rt_ticket = case_option (Inl AssertionError) id \<circ> map_of [(1, Inr ''ticket one'')],
      pending = Ready []\<rparr>
     \<lparr>source = ''alice!~alice@host'', target = ''#atool'',
      arguments = [''create: thanks rt#1'']\<rparr>
     = ([], Some OtherError)
   \<and> on_pubmsg
     \<lparr>login = ''nobody'', channels = map_of [(''#atool'', (=) ''root'')],
      rt_connection = None,
      rt_ticket = case_option (Inl AssertionError) id \<circ> map_of [(1, Inr ''ticket one'')],
      pending = Ready []\<rparr>
     \<lparr>source = ''alice!~alice@host'', target = ''#atool'',
      arguments = [''create: thanks'']\<rparr>
     = ([Privmsg ''#atool'' ''alice: you're welcome''], None)"
  using tickets_or_command [of
      "\<lparr>login = ''nobody'', channels = map_of [(''#atool'', (=) ''root'')],
        rt_connection = None,
        rt_ticket = case_option (Inl AssertionError) id \<circ> map_of [(1, Inr ''ticket one'')],
        pending = Ready []\<rparr>"
      "\<lparr>source = ''alice!~alice@host'', target = ''#atool'',
        arguments = [''create: thanks rt#1'']\<rparr>"
      "(=) ''root''" "''alice''" "''~alice@host''" "''create: thanks rt#1''" "''thanks''" "[''rt#1'']"]
    tickets_or_command [of
      "\<lparr>login = ''nobody'', channels = map_of [(''#atool'', (=) ''root'')],
        rt_connection = Some OtherError,
        rt_ticket = case_option (Inl AssertionError) id \<circ> map_of [(1, Inr ''ticket one'')],
        pending = Ready []\<rparr>"
      "\<lparr>source = ''alice!~alice@host'', target = ''#atool'',
        arguments = [''create: thanks rt#1'']\<rparr>"
      "(=) ''root''" "''alice''" "''~alice@host''" "''create: thanks rt#1''" "''thanks''" "[''rt#1'']"]
    tickets_or_command [of
      "\<lparr>login = ''nobody'', channels = map_of [(''#atool'', (=) ''root'')],
        rt_connection = None,
        rt_ticket = case_option (Inl AssertionError) id \<circ> map_of [(1, Inr ''ticket one'')],
        pending = Ready []\<rparr>"
      "\<lparr>source = ''alice!~alice@host'', target = ''#atool'',
        arguments = [''create: thanks'']\<rparr>"
      "(=) ''root''" "''alice''" "''~alice@host''" "''create: thanks''" "''thanks''" "[]"]
  by (simp add: startswith_def IRC_NICKNAME_def strip_def isspace_def isdigit_def
      int_of_digits_def handle_command_def on_pubmsg_respond_def)

section \<open>A malformed source\<close>

text \<open>
  Claim C2, as the spec has it: a message whose source has not exactly one \<open>!\<close> is
  dropped without an error. The code rejects it by \<^verbatim>\<open>assert event.source.count('!') == 1\<close>:
  for the source \<open>alice\<close>, in a joined channel, \<^verbatim>\<open>on_pubmsg\<close> ends in \<^verbatim>\<open>AssertionError\<close>.
\<close>

theorem malformed_source_counterexample:
  "count_list ''alice'' (CHR ''!'') = 0
   \<and> on_pubmsg \<lparr>login = ''nobody'', channels = map_of [(''#atool'', (=) ''root'')],
               rt_connection = None,
               rt_ticket = case_option (Inl AssertionError) id \<circ> map_of [],
               pending = Ready []\<rparr>
       \<lparr>source = ''alice'', target = ''#atool'', arguments = [''hello'']\<rparr>
     = ([], Some AssertionError)"
  by (simp add: on_pubmsg_def)

text \<open>
  Claim C2, amended. For every message in a joined channel whose source has not exactly
  one \<open>!\<close>, the dispatch makes no Responder call (and no other effect) and raises
  \<^verbatim>\<open>AssertionError\<close>, which leaves \<^verbatim>\<open>on_pubmsg\<close>.
\<close>

theorem malformed_source_raises:
  assumes ch: "channels self (target event) = Some opers"
    and src: "count_list (source event) (CHR ''!'') \<noteq> 1"
  shows "on_pubmsg self event = ([], Some AssertionError)"
  using src by (simp add: on_pubmsg_def ch)

theorem malformed_source_raises_witness:
  "on_pubmsg \<lparr>login = ''nobody'', channels = map_of [(''#atool'', (=) ''root'')],
               rt_connection = None,
               rt_ticket = case_option (Inl AssertionError) id \<circ> map_of [],
               pending = Ready []\<rparr>
       \<lparr>source = ''a!b!c'', target = ''#atool'', arguments = [''create: thanks'']\<rparr>
     = ([], Some AssertionError)"
  using malformed_source_raises [of
       "\<lparr>login = ''nobody'', channels = map_of [(''#atool'', (=) ''root'')],
               rt_connection = None,
               rt_ticket = case_option (Inl AssertionError) id \<circ> map_of [],
               pending = Ready []\<rparr>"
       "\<lparr>source = ''a!b!c'', target = ''#atool'', arguments = [''create: thanks'']\<rparr>"
       "(=) ''root''"]
  by simp

section \<open>Ticket references\<close>

text \<open>
  Claim C3, as the spec has it: every reference whose lookup fails is passed over, and
  no failed lookup raises an error that keeps the rest of the text from being processed.
  The loop catches \<^verbatim>\<open>AssertionError\<close> and nothing else. In the text \<open>rt#1 rt#2\<close>, where
  the lookup of ticket 1 raises another exception and ticket 2 is there, the dispatch
  ends in that exception and the summary of ticket 2 is not sent.
\<close>

theorem ticket_lookup_aborts_counterexample:
  "findall_rt ''rt#1 rt#2'' = [''1'', ''2'']
   \<and> on_pubmsg
         \<lparr>login = ''nobody'', channels = map_of [(''#atool'', (=) ''root'')],
          rt_connection = None,
          rt_ticket = case_option (Inl AssertionError) id \<circ> map_of [(1, Inl OtherError), (2, Inr ''ticket two'')],
          pending = Ready []\<rparr>
         \<lparr>source = ''alice!~alice@host'', target = ''#atool'',
          arguments = [''rt#1 rt#2'']\<rparr>
       = ([], Some OtherError)"
  by (simp add: on_pubmsg_def startswith_def isdigit_def int_of_digits_def)

text \<open>
  Claim C3, amended. Let the text of a message hold \<open>k\<close> ticket references, those that
  \<^verbatim>\<open>findall\<close> gives. As long as every lookup finds its ticket or fails with
  \<^verbatim>\<open>AssertionError\<close>, the ticket loop makes one Responder call for each reference whose
  ticket is found, in the order of the text, each the ticket's summary addressed to the
  sender; a reference whose lookup fails with \<^verbatim>\<open>AssertionError\<close> is passed over and the
  references behind it are processed all the same; so the loop makes exactly \<open>k\<close> calls
  when every ticket is found. A lookup that raises any other exception ends the loop with
  that exception, after the calls made so far: the references behind it are not
  processed. For \<open>k \<ge> 1\<close>, in a joined channel and from another sender, the dispatch is
  this loop, behind the connecting to the ticket system; an exception that the connecting
  raises ends the dispatch before any call.
\<close>

theorem ticket_references:
  assumes ch: "channels self (target event) = Some opers"
    and src: "split_chr (CHR ''!'') (source event) = [user, host]"
    and nb: "\<not> startswith user ''create''"
    and arg: "arguments event = [msg]"
  shows "((\<forall>t \<in> set (findall_rt msg).
              rt_ticket self (int_of_digits t) = Inl AssertionError
              \<or> (\<exists>s. rt_ticket self (int_of_digits t) = Inr s))
            \<longrightarrow> respond_tickets (rt_ticket self) (on_pubmsg_respond (target event) user)
                    (findall_rt msg)
                  = (List.map_filter
                       (\<lambda>t. case rt_ticket self (int_of_digits t) of
                         Inr s \<Rightarrow> Some (Privmsg (target event) (user @ '': '' @ s))
                       | Inl e \<Rightarrow> None)
                       (findall_rt msg), None))
         \<and> ((\<forall>t \<in> set (findall_rt msg). \<exists>s. rt_ticket self (int_of_digits t) = Inr s)
            \<longrightarrow> length (List.map_filter
                       (\<lambda>t. case rt_ticket self (int_of_digits t) of
                         Inr s \<Rightarrow> Some (Privmsg (target event) (user @ '': '' @ s))
                       | Inl e \<Rightarrow> None)
                       (findall_rt msg)) = length (findall_rt msg))
         \<and> (findall_rt msg = pre @ t # post
              \<and> (\<forall>t \<in> set pre.
                    rt_ticket self (int_of_digits t) = Inl AssertionError
                    \<or> (\<exists>s. rt_ticket self (int_of_digits t) = Inr s))
              \<and> rt_ticket self (int_of_digits t) = Inl e \<and> e \<noteq> AssertionError
            \<longrightarrow> respond_tickets (rt_ticket self) (on_pubmsg_respond (target event) user)
                    (findall_rt msg)
                  = (List.map_filter
                       (\<lambda>t. case rt_ticket self (int_of_digits t) of
                         Inr s \<Rightarrow> Some (Privmsg (target event) (user @ '': '' @ s))
                       | Inl e \<Rightarrow> None)
                       pre, Some e))
         \<and> (findall_rt msg \<noteq> []
            \<longrightarrow> on_pubmsg self event
                  = (case rt_connection self of
                       Some e \<Rightarrow> ([], Some e)
                     | None \<Rightarrow>
                         respond_tickets (rt_ticket self)
                           (on_pubmsg_respond (target event) user) (findall_rt msg)))"
proof -
  let ?respond = "on_pubmsg_respond (target event) user"
  let ?F = "(\<lambda>t. case rt_ticket self (int_of_digits t) of
                         Inr s \<Rightarrow> Some (Privmsg (target event) (user @ '': '' @ s))
                       | Inl e \<Rightarrow> None)"
  have F: "(\<lambda>t. case rt_ticket self (int_of_digits t) of
                  Inr s \<Rightarrow> Some (?respond s True)
                | Inl e \<Rightarrow> None) = ?F"
    by (auto simp: on_pubmsg_respond_def fun_eq_iff split: sum.splits)
  have a: "(\<forall>t \<in> set (findall_rt msg).
              rt_ticket self (int_of_digits t) = Inl AssertionError
              \<or> (\<exists>s. rt_ticket self (int_of_digits t) = Inr s))
            \<longrightarrow> respond_tickets (rt_ticket self) ?respond (findall_rt msg)
                  = (List.map_filter ?F (findall_rt msg), None)"
    using respond_tickets_caught [of "findall_rt msg" "rt_ticket self" ?respond]
    by (simp only: F) blast
  have b: "(\<forall>t \<in> set (findall_rt msg). \<exists>s. rt_ticket self (int_of_digits t) = Inr s)
            \<longrightarrow> length (List.map_filter ?F (findall_rt msg)) = length (findall_rt msg)"
    using length_map_filter_found [of "findall_rt msg" "rt_ticket self" ?respond]
    by (simp only: F) blast
  have c: "findall_rt msg = pre @ t # post
              \<and> (\<forall>t \<in> set pre.
                    rt_ticket self (int_of_digits t) = Inl AssertionError
                    \<or> (\<exists>s. rt_ticket self (int_of_digits t) = Inr s))
              \<and> rt_ticket self (int_of_digits t) = Inl e \<and> e \<noteq> AssertionError
            \<longrightarrow> respond_tickets (rt_ticket self) ?respond (findall_rt msg)
                  = (List.map_filter ?F pre, Some e)"
    using respond_tickets_abort [of pre "rt_ticket self" t e ?respond post]
    by (simp only: F) metis
  have d: "findall_rt msg \<noteq> []
            \<longrightarrow> on_pubmsg self event
                  = (case rt_connection self of
                       Some e \<Rightarrow> ([], Some e)
                     | None \<Rightarrow> respond_tickets (rt_ticket self) ?respond (findall_rt msg))"
    by (simp add: on_pubmsg_sender [OF ch src nb arg])
  from a b c d show ?thesis by blast
qed

theorem ticket_references_witness:
  "findall_rt ''see rt#12, rt#7 and rt#30'' = [''12'', ''7'', ''30'']
   \<and> on_pubmsg
     \<lparr>login = ''nobody'', channels = map_of [(''#atool'', (=) ''root'')],
      rt_connection = None,
      rt_ticket = case_option (Inl AssertionError) id \<circ> map_of [(12, Inr ''twelve''), (30, Inr ''thirty'')],
      pending = Ready []\<rparr>
     \<lparr>source = ''alice!~alice@host'', target = ''#atool'',
      arguments = [''see rt#12, rt#7 and rt#30'']\<rparr>
     = ([Privmsg ''#atool'' ''alice: twelve'', Privmsg ''#atool'' ''alice: thirty''], None)
   \<and> on_pubmsg
     \<lparr>login = ''nobody'', channels = map_of [(''#atool'', (=) ''root'')],
      rt_connection = None,
      rt_ticket = case_option (Inl AssertionError) id \<circ> map_of [(12, Inr ''twelve''), (7, Inr ''seven''), (30, Inr ''thirty'')],
      pending = Ready []\<rparr>
     \<lparr>source = ''alice!~alice@host'', target = ''#atool'',
      arguments = [''see rt#12, rt#7 and rt#30'']\<rparr>
     = ([Privmsg ''#atool'' ''alice: twelve'', Privmsg ''#atool'' ''alice: seven'',
         Privmsg ''#atool'' ''alice: thirty''], None)
   \<and> on_pubmsg
     \<lparr>login = ''nobody'', channels = map_of [(''#atool'', (=) ''root'')],
      rt_connection = None,
      rt_ticket = case_option (Inl AssertionError) id \<circ> map_of [(12, Inr ''twelve''), (7, Inl OtherError), (30, Inr ''thirty'')],
      pending = Ready []\<rparr>
     \<lparr>source = ''alice!~alice@host'', target = ''#atool'',
      arguments = [''see rt#12, rt#7 and rt#30'']\<rparr>
     = ([Privmsg ''#atool'' ''alice: twelve''], Some OtherError)
   \<and> on_pubmsg
     \<lparr>login = ''nobody'', channels = map_of [(''#atool'', (=) ''root'')],
      rt_connection = Some OtherError,
      rt_ticket = case_option (Inl AssertionError) id \<circ> map_of [(12, Inr ''twelve''), (7, Inr ''seven''), (30, Inr ''thirty'')],
      pending = Ready []\<rparr>
     \<lparr>source = ''alice!~alice@host'', target = ''#atool'',
      arguments = [''see rt#12, rt#7 and rt#30'']\<rparr>
     = ([], Some OtherError)"
  using ticket_references [of
      "\<lparr>login = ''nobody'', channels = map_of [(''#atool'', (=) ''root'')],
        rt_connection = None,
        rt_ticket = case_option (Inl AssertionError) id \<circ> map_of [(12, Inr ''twelve''), (30, Inr ''thirty'')],
        pending = Ready []\<rparr>"
      "\<lparr>source = ''alice!~alice@host'', target = ''#atool'',
        arguments = [''see rt#12, rt#7 and rt#30'']\<rparr>"
      "(=) ''root''" "''alice''" "''~alice@host''" "''see rt#12, rt#7 and rt#30''"
      "[]" "''12''" "[''7'', ''30'']" OtherError]
    ticket_references [of
      "\<lparr>login = ''nobody'', channels = map_of [(''#atool'', (=) ''root'')],
        rt_connection = None,
        rt_ticket = case_option (Inl AssertionError) id \<circ> map_of [(12, Inr ''twelve''), (7, Inr ''seven''), (30, Inr ''thirty'')],
        pending = Ready []\<rparr>"
      "\<lparr>source = ''alice!~alice@host'', target = ''#atool'',
        arguments = [''see rt#12, rt#7 and rt#30'']\<rparr>"
      "(=) ''root''" "''alice''" "''~alice@host''" "''see rt#12, rt#7 and rt#30''"
      "[]" "''12''" "[''7'', ''30'']" OtherError]
    ticket_references [of
      "\<lparr>login = ''nobody'', channels = map_of [(''#atool'', (=) ''root'')],
        rt_connection = None,
        rt_ticket = case_option (Inl AssertionError) id \<circ> map_of [(12, Inr ''twelve''), (7, Inl OtherError), (30, Inr ''thirty'')],
        pending = Ready []\<rparr>"
      "\<lparr>source = ''alice!~alice@host'', target = ''#atool'',
        arguments = [''see rt#12, rt#7 and rt#30'']\<rparr>"
      "(=) ''root''" "''alice''" "''~alice@host''" "''see rt#12, rt#7 and rt#30''"
      "[''12'']" "''7''" "[''30'']" OtherError]
    ticket_references [of
      "\<lparr>login = ''nobody'', channels = map_of [(''#atool'', (=) ''root'')],
        rt_connection = Some OtherError,
        rt_ticket = case_option (Inl AssertionError) id \<circ> map_of [(12, Inr ''twelve''), (7, Inr ''seven''), (30, Inr ''thirty'')],
        pending = Ready []\<rparr>"
      "\<lparr>source = ''alice!~alice@host'', target = ''#atool'',
        arguments = [''see rt#12, rt#7 and rt#30'']\<rparr>"
      "(=) ''root''" "''alice''" "''~alice@host''" "''see rt#12, rt#7 and rt#30''"
      "[]" "''12''" "[''7'', ''30'']" OtherError]
  by (simp add: startswith_def isdigit_def int_of_digits_def on_pubmsg_respond_def
      List.map_filter_simps)

section \<open>The listener registry: one match, one call\<close>

text \<open>
  Claim C4. A listener is registered with \<^verbatim>\<open>listen\<close>, behind the listeners registered
  before it and in front of those registered after it. A message that this listener
  matches, and that none of the others matches, calls the registered handler exactly once
  (with the groups of the match) and calls nothing else, however many the others are.
\<close>

theorem listener_fires_once:
  assumes m: "entry_match nick \<lparr>pattern = p, handler = fn, require_mention = rm\<rparr> text
                = Some groups"
    and b: "\<forall>e \<in> set before. entry_match nick e text = None"
    and a: "\<forall>e \<in> set after. entry_match nick e text = None"
  shows "dispatch_listeners nick (listen before p fn rm @ after) text = [(fn, groups)]"
  by (simp add: listen_def dispatch_listeners_append dispatch_listeners_none [OF b]
      dispatch_listeners_none [OF a] m)

theorem listener_fires_once_witness:
  "dispatch_listeners ''create'' (register []) ''create: is alice in the lab''
     = [(in_lab, [''alice''])]"
  using listener_fires_once [of "''create''" match_in_lab in_lab True
      "''create: is alice in the lab''" "[''alice'']" "[]"
      "[\<lparr>pattern = match_who_is_in_lab, handler = who_is_in_lab, require_mention = True\<rparr>]"]
  by (simp add: register_def listen_def entry_match_def mention_prefixed_def startswith_def
      match_in_lab_def match_who_is_in_lab_def islower_az_def)

section \<open>The relay\<close>

text \<open>
  Claim C5, as the spec has it: when a subscription is cut, the relay subscribes again
  and delivers the later events, and its loop has no terminal state. In the code the loop
  goes round only when \<^verbatim>\<open>capture\<close> returns; nothing catches what \<^verbatim>\<open>capture\<close> raises. A
  first subscription that ends in an exception ends the relay, and the event of the
  subscription behind it, which \<^verbatim>\<open>capture\<close> would announce, is not delivered.
\<close>

theorem relay_exits_counterexample:
  "celery_listener ''nobody''
     [([], Raised),
      ([\<lparr>event_type = ''ocflib.account_created'',
         request = \<lparr>user_name = ''a'', real_name = ''A'', reasons = []\<rparr>\<rparr>], Returned)]
   = ([], Exited)
   \<and> capture ''nobody''
        [\<lparr>event_type = ''ocflib.account_created'',
          request = \<lparr>user_name = ''a'', real_name = ''A'', reasons = []\<rparr>\<rparr>]
       = [Privmsg ''#atool'' ''a created (A)'']"
  by (simp add: capture_def process_def handlers_def bot_announce_def
      on_account_created_def IRC_CHANNELS_ANNOUNCE_def)

text \<open>
  Claim C5, amended. As long as every subscription ends by \<^verbatim>\<open>capture\<close> returning, the
  relay subscribes again each time, delivers the events of all the subscriptions in
  order, and is looping still: the loop has no exit of its own. A subscription that ends
  in an exception ends the loop, after the events delivered up to there; nothing of the
  subscriptions behind it is delivered.
\<close>

theorem relay_resubscribes:
  assumes "\<forall>s \<in> set pre. snd s = Returned"
  shows "celery_listener lg pre = (concat (map (\<lambda>s. capture lg (fst s)) pre), Looping)
         \<and> celery_listener lg (pre @ (events, Raised) # post)
             = (concat (map (\<lambda>s. capture lg (fst s)) pre) @ capture lg events, Exited)"
  using assms
proof (induction pre)
  case Nil
  show ?case by simp
next
  case (Cons s pre)
  obtain evs e where s: "s = (evs, e)" by (cases s)
  with Cons.prems have e: "e = Returned" by simp
  from Cons have "celery_listener lg pre = (concat (map (\<lambda>s. capture lg (fst s)) pre), Looping)"
    and "celery_listener lg (pre @ (events, Raised) # post)
             = (concat (map (\<lambda>s. capture lg (fst s)) pre) @ capture lg events, Exited)"
    by simp_all
  then show ?case by (simp add: s e)
qed

theorem relay_resubscribes_witness:
  "celery_listener ''nobody''
     [([\<lparr>event_type = ''ocflib.account_rejected'',
         request = \<lparr>user_name = ''a'', real_name = ''A'', reasons = []\<rparr>\<rparr>], Returned),
      ([\<lparr>event_type = ''ocflib.account_approved'',
         request = \<lparr>user_name = ''b'', real_name = ''B'', reasons = []\<rparr>\<rparr>], Returned)]
   = ([Privmsg ''#atool'' ''a was rejected.'',
       Privmsg ''#atool'' ''b was approved, now pending creation.''], Looping)"
  using relay_resubscribes [of
     "[([\<lparr>event_type = ''ocflib.account_rejected'',
         request = \<lparr>user_name = ''a'', real_name = ''A'', reasons = []\<rparr>\<rparr>], Returned),
      ([\<lparr>event_type = ''ocflib.account_approved'',
         request = \<lparr>user_name = ''b'', real_name = ''B'', reasons = []\<rparr>\<rparr>], Returned)]"
     "''nobody''" "[]" "[]"]
  by (simp add: capture_def process_def handlers_def bot_announce_def
      on_account_approved_def on_account_rejected_def IRC_CHANNELS_ANNOUNCE_def)

text \<open>
  Claim C6. Each of the four lifecycle events is announced by the template of its kind
  in the channels of its kind. A submitted account is announced as
  \<open><u> (<r>) needs approval: \<close> followed by the reasons joined by a comma and a space
  (every reason but the last with \<open>, \<close> behind it, then the last one; nothing for no
  reason), in every channel the bot joins on welcome: \<open>#rebuild\<close> and \<open>#atool\<close> when
  it runs as \<open>nobody\<close>, the channel \<open>#<login>\<close> otherwise. A created, an approved and a
  rejected account are announced by their templates in the announcement channel
  \<open>#atool\<close> only. Each channel gets the line once, and nothing else is sent. The last
  part is the example of the spec.
\<close>

theorem relay_announcements:
  "on_welcome lg
     = map Join (if lg = ''nobody'' then [''#rebuild'', ''#atool''] else [''#'' @ lg])
   \<and> process lg \<lparr>event_type = ''ocflib.account_submitted'',
                  request = \<lparr>user_name = u, real_name = r, reasons = rs\<rparr>\<rparr>
       = map (\<lambda>c. Privmsg c
                (u @ '' ('' @ r @ '') needs approval: ''
                   @ (if rs = [] then []
                      else concat (map (\<lambda>x. x @ '', '') (butlast rs)) @ last rs)))
           (if lg = ''nobody'' then [''#rebuild'', ''#atool''] else [''#'' @ lg])
   \<and> process lg \<lparr>event_type = ''ocflib.account_created'',
                  request = \<lparr>user_name = u, real_name = r, reasons = rs\<rparr>\<rparr>
       = [Privmsg ''#atool'' (u @ '' created ('' @ r @ '')'')]
   \<and> process lg \<lparr>event_type = ''ocflib.account_approved'',
                  request = \<lparr>user_name = u, real_name = r, reasons = rs\<rparr>\<rparr>
       = [Privmsg ''#atool'' (u @ '' was approved, now pending creation.'')]
   \<and> process lg \<lparr>event_type = ''ocflib.account_rejected'',
                  request = \<lparr>user_name = u, real_name = r, reasons = rs\<rparr>\<rparr>
       = [Privmsg ''#atool'' (u @ '' was rejected.'')]
   \<and> process ''nobody''
         \<lparr>event_type = ''ocflib.account_submitted'',
          request = \<lparr>user_name = ''jdoe'', real_name = ''John Doe'',
                     reasons = [''bad id'', ''missing photo'']\<rparr>\<rparr>
       = [Privmsg ''#rebuild'' ''jdoe (John Doe) needs approval: bad id, missing photo'',
          Privmsg ''#atool'' ''jdoe (John Doe) needs approval: bad id, missing photo'']"
proof -
  have j: "join '', '' rs
             = (if rs = [] then [] else concat (map (\<lambda>x. x @ '', '') (butlast rs)) @ last rs)"
    by (rule join_concat)
  have s: "process lg \<lparr>event_type = ''ocflib.account_submitted'',
                  request = \<lparr>user_name = u, real_name = r, reasons = rs\<rparr>\<rparr>
       = map (\<lambda>c. Privmsg c (u @ '' ('' @ r @ '') needs approval: '' @ join '', '' rs))
           (if lg = ''nobody'' then [''#rebuild'', ''#atool''] else [''#'' @ lg])"
    by (simp add: process_def handlers_def bot_announce_def on_account_submitted_def
        IRC_CHANNELS_def)
  have x: "process ''nobody''
         \<lparr>event_type = ''ocflib.account_submitted'',
          request = \<lparr>user_name = ''jdoe'', real_name = ''John Doe'',
                     reasons = [''bad id'', ''missing photo'']\<rparr>\<rparr>
       = [Privmsg ''#rebuild'' ''jdoe (John Doe) needs approval: bad id, missing photo'',
          Privmsg ''#atool'' ''jdoe (John Doe) needs approval: bad id, missing photo'']"
    by (simp add: process_def handlers_def bot_announce_def on_account_submitted_def
        IRC_CHANNELS_def)
  have o: "on_welcome lg
     = map Join (if lg = ''nobody'' then [''#rebuild'', ''#atool''] else [''#'' @ lg])
   \<and> process lg \<lparr>event_type = ''ocflib.account_created'',
                  request = \<lparr>user_name = u, real_name = r, reasons = rs\<rparr>\<rparr>
       = [Privmsg ''#atool'' (u @ '' created ('' @ r @ '')'')]
   \<and> process lg \<lparr>event_type = ''ocflib.account_approved'',
                  request = \<lparr>user_name = u, real_name = r, reasons = rs\<rparr>\<rparr>
       = [Privmsg ''#atool'' (u @ '' was approved, now pending creation.'')]
   \<and> process lg \<lparr>event_type = ''ocflib.account_rejected'',
                  request = \<lparr>user_name = u, real_name = r, reasons = rs\<rparr>\<rparr>
       = [Privmsg ''#atool'' (u @ '' was rejected.'')]"
    by (simp add: on_welcome_def IRC_CHANNELS_def IRC_CHANNELS_ANNOUNCE_def process_def
        handlers_def bot_announce_def on_account_created_def on_account_approved_def
        on_account_rejected_def)
  from s [unfolded j] x o show ?thesis by blast
qed

theorem relay_announcements_witness:
  "on_welcome ''alice'' = [Join ''#alice'']
   \<and> process ''alice''
         \<lparr>event_type = ''ocflib.account_submitted'',
          request = \<lparr>user_name = ''jdoe'', real_name = ''John Doe'',
                     reasons = [''bad id'', ''missing photo'', ''no email'']\<rparr>\<rparr>
       = [Privmsg ''#alice''
            ''jdoe (John Doe) needs approval: bad id, missing photo, no email'']
   \<and> process ''nobody''
         \<lparr>event_type = ''ocflib.account_submitted'',
          request = \<lparr>user_name = ''jdoe'', real_name = ''John Doe'', reasons = []\<rparr>\<rparr>
       = [Privmsg ''#rebuild'' ''jdoe (John Doe) needs approval: '',
          Privmsg ''#atool'' ''jdoe (John Doe) needs approval: '']
   \<and> process ''alice''
         \<lparr>event_type = ''ocflib.account_created'',
          request = \<lparr>user_name = ''jdoe'', real_name = ''John Doe'', reasons = []\<rparr>\<rparr>
       = [Privmsg ''#atool'' ''jdoe created (John Doe)'']"
  using relay_announcements [of "''alice''" "''jdoe''" "''John Doe''"
      "[''bad id'', ''missing photo'', ''no email'']"]
    relay_announcements [of "''nobody''" "''jdoe''" "''John Doe''" "[]"]
    relay_announcements [of "''alice''" "''jdoe''" "''John Doe''" "[]"]
  by simp

section \<open>The built-in commands\<close>

text \<open>
  Claim C7. For a sender who is not an operator, the commands \<open>list\<close>, \<open>approve\<close> and
  \<open>reject\<close> make no Responder call and hand no task to the queue, whatever the arguments
  and whatever the queue would answer; \<open>thanks\<close> and \<open>thank\<close> give their responses to that
  sender all the same.
\<close>

theorem non_operator_commands:
  "handle_command w False ''list'' args respond = ([], None)
   \<and> handle_command w False ''approve'' args respond = ([], None)
   \<and> handle_command w False ''reject'' args respond = ([], None)
   \<and> handle_command w False ''thanks'' args respond
       = ([respond ''you're welcome'' True], None)
   \<and> handle_command w False ''thank'' args respond
       = ([if join '' '' args = ''you'' then respond ''you're most welcome'' True
           else respond (''thanks, '' @ join '' '' args @ ''!'') False], None)"
  by (simp add: handle_command_def Let_def)

text \<open>
  Claim C8. For every sender, operator or not: \<open>thank\<close> with arguments that join to
  \<open>you\<close> is answered by \<open>you're most welcome\<close> behind the prefix \<open><nick>: \<close>; \<open>thank\<close>
  with any other words \<open>w\<close> is answered by \<open>thanks, <w>!\<close> as bare text, without the
  prefix; \<open>thanks\<close> is answered by \<open>you're welcome\<close> behind the prefix. Each is the one
  line sent, to the channel of the message. The words are joined by one blank: every
  word but the last with a blank behind it, then the last one. The last three parts are
  \<open>thank you\<close>, \<open>thank pizza\<close> and \<open>thank you very much\<close>.
\<close>

theorem thank_and_thanks:
  "handle_command w is_oper ''thank'' args (on_pubmsg_respond tgt nick)
     = ([Privmsg tgt
           (let thing = (if args = [] then []
                         else concat (map (\<lambda>x. x @ '' '') (butlast args)) @ last args)
            in if thing = ''you'' then nick @ '': '' @ ''you're most welcome''
               else ''thanks, '' @ thing @ ''!'')], None)
   \<and> handle_command w is_oper ''thanks'' args (on_pubmsg_respond tgt nick)
     = ([Privmsg tgt (nick @ '': '' @ ''you're welcome'')], None)
   \<and> handle_command w is_oper ''thank'' [''you''] (on_pubmsg_respond tgt nick)
     = ([Privmsg tgt (nick @ '': you're most welcome'')], None)
   \<and> handle_command w is_oper ''thank'' [''pizza''] (on_pubmsg_respond tgt nick)
     = ([Privmsg tgt ''thanks, pizza!''], None)
   \<and> handle_command w is_oper ''thank'' [''you'', ''very'', ''much'']
         (on_pubmsg_respond tgt nick)
     = ([Privmsg tgt ''thanks, you very much!''], None)"
proof -
  have g: "handle_command w is_oper ''thank'' args (on_pubmsg_respond tgt nick)
     = ([Privmsg tgt
           (let thing = join '' '' args
            in if thing = ''you'' then nick @ '': '' @ ''you're most welcome''
               else ''thanks, '' @ thing @ ''!'')], None)"
    by (simp add: handle_command_def Let_def on_pubmsg_respond_def)
  have j: "join '' '' args
             = (if args = [] then [] else concat (map (\<lambda>x. x @ '' '') (butlast args)) @ last args)"
    by (rule join_concat)
  have r: "handle_command w is_oper ''thanks'' args (on_pubmsg_respond tgt nick)
             = ([Privmsg tgt (nick @ '': '' @ ''you're welcome'')], None)
   \<and> handle_command w is_oper ''thank'' [''you''] (on_pubmsg_respond tgt nick)
     = ([Privmsg tgt (nick @ '': you're most welcome'')], None)
   \<and> handle_command w is_oper ''thank'' [''pizza''] (on_pubmsg_respond tgt nick)
     = ([Privmsg tgt ''thanks, pizza!''], None)
   \<and> handle_command w is_oper ''thank'' [''you'', ''very'', ''much'']
         (on_pubmsg_respond tgt nick)
     = ([Privmsg tgt ''thanks, you very much!''], None)"
    by (simp add: handle_command_def Let_def on_pubmsg_respond_def)
  from g [unfolded j] r show ?thesis by blast
qed

theorem thank_and_thanks_witness:
  "handle_command TimeoutError False ''thank'' [''a'', [], ''b'']
       (on_pubmsg_respond ''#atool'' ''alice'')
     = ([Privmsg ''#atool'' ''thanks, a  b!''], None)
   \<and> handle_command TimeoutError False ''thank'' []
       (on_pubmsg_respond ''#atool'' ''alice'')
     = ([Privmsg ''#atool'' ''thanks, !''], None)
   \<and> handle_command (Ready []) True ''thank'' [''you'']
       (on_pubmsg_respond ''#atool'' ''root'')
     = ([Privmsg ''#atool'' ''root: you're most welcome''], None)
   \<and> handle_command (Ready []) True ''thanks'' []
       (on_pubmsg_respond ''#atool'' ''root'')
     = ([Privmsg ''#atool'' ''root: you're welcome''], None)"
  using thank_and_thanks [of TimeoutError False "[''a'', [], ''b'']" "''#atool''" "''alice''"]
    thank_and_thanks [of TimeoutError False "[]" "''#atool''" "''alice''"]
    thank_and_thanks [of "Ready []" True "[''you'']" "''#atool''" "''root''"]
    thank_and_thanks [of "Ready []" True "[]" "''#atool''" "''root''"]
  by (simp add: Let_def)

text \<open>
  Claim C9. For an operator, \<open>list\<close> hands \<open>get_pending_requests\<close> to the queue and waits
  for it with a timeout of 5 seconds; an empty result is answered by \<open>no pending
  requests\<close>, a timeout by the apology, and any other result by one Responder call for
  each pending request of the result, in the result's order.
\<close>

theorem list_command:
  "handle_command (Ready []) True ''list'' args respond
     = ([Delay ''get_pending_requests'' [], Wait 5, respond ''no pending requests'' True], None)
   \<and> handle_command TimeoutError True ''list'' args respond
     = ([Delay ''get_pending_requests'' [], Wait 5,
         respond ''timed out loading list of requests, sorry!'' True], None)
   \<and> handle_command (Ready (r # rs)) True ''list'' args respond
     = ([Delay ''get_pending_requests'' [], Wait 5]
          @ map (\<lambda>x. respond x True) (r # rs), None)"
  by (simp add: handle_command_def)

text \<open>
  Claim C10. An operator's mention-prefixed message whose command is \<open>approve\<close> or
  \<open>reject\<close> and has no argument word: \<^verbatim>\<open>handle_command\<close> reads \<^verbatim>\<open>args[0]\<close> of the empty
  list, which raises \<^verbatim>\<open>IndexError\<close> before any task is handed over and before any
  response; nothing catches it, and it leaves \<^verbatim>\<open>on_pubmsg\<close>. The sender is an operator
  where the test of the code, \<^verbatim>\<open>user in self.channels[event.target].opers()\<close>, answers
  yes.
\<close>

theorem approve_reject_without_argument:
  assumes ch: "channels self (target event) = Some opers"
    and src: "split_chr (CHR ''!'') (source event) = [user, host]"
    and nb: "\<not> startswith user ''create''"
    and arg: "arguments event = [msg]"
    and nt: "findall_rt msg = []"
    and mention: "startswith msg (IRC_NICKNAME (login self) @ '' '')
                  \<or> startswith msg (IRC_NICKNAME (login self) @ '': '')"
    and cmd: "split_chr (CHR '' '') (strip (drop (length (IRC_NICKNAME (login self)) + 1) msg))
                = [command]"
    and ar: "command = ''approve'' \<or> command = ''reject''"
    and op: "opers user"
  shows "handle_command (pending self) True command [] (on_pubmsg_respond (target event) user)
           = ([], Some IndexError)
         \<and> on_pubmsg self event = ([], Some IndexError)"
proof -
  have hc: "handle_command (pending self) True command []
              (on_pubmsg_respond (target event) user) = ([], Some IndexError)"
    using ar by (auto simp: handle_command_def)
  have "on_pubmsg self event
          = handle_command (pending self) (opers user) command []
              (on_pubmsg_respond (target event) user)"
    by (rule on_pubmsg_command [OF ch src nb arg nt mention cmd])
  with hc op show ?thesis by simp
qed

theorem approve_reject_without_argument_witness:
  "on_pubmsg \<lparr>login = ''nobody'', channels = map_of [(''#atool'', (=) ''root'')],
               rt_connection = None,
               rt_ticket = case_option (Inl AssertionError) id \<circ> map_of [],
               pending = Ready []\<rparr>
     \<lparr>source = ''root!~root@host'', target = ''#atool'', arguments = [''create: approve '']\<rparr>
   = ([], Some IndexError)
   \<and> on_pubmsg \<lparr>login = ''nobody'', channels = map_of [(''#atool'', (=) ''root'')],
               rt_connection = None,
               rt_ticket = case_option (Inl AssertionError) id \<circ> map_of [],
               pending = Ready []\<rparr>
     \<lparr>source = ''root!~root@host'', target = ''#atool'', arguments = [''create reject'']\<rparr>
   = ([], Some IndexError)"
  using approve_reject_without_argument
    [of "\<lparr>login = ''nobody'', channels = map_of [(''#atool'', (=) ''root'')],
               rt_connection = None,
               rt_ticket = case_option (Inl AssertionError) id \<circ> map_of [],
               pending = Ready []\<rparr>"
        "\<lparr>source = ''root!~root@host'', target = ''#atool'', arguments = [''create: approve '']\<rparr>"
        "(=) ''root''" "''root''" "''~root@host''" "''create: approve ''" "''approve''"]
    approve_reject_without_argument
    [of "\<lparr>login = ''nobody'', channels = map_of [(''#atool'', (=) ''root'')],
               rt_connection = None,
               rt_ticket = case_option (Inl AssertionError) id \<circ> map_of [],
               pending = Ready []\<rparr>"
        "\<lparr>source = ''root!~root@host'', target = ''#atool'', arguments = [''create reject'']\<rparr>"
        "(=) ''root''" "''root''" "''~root@host''" "''create reject''" "''reject''"]
  by (simp add: startswith_def IRC_NICKNAME_def strip_def isspace_def)

end
